theory Spec2Isabelle
  imports Main
begin

section \<open>Messages\<close>

text \<open>
  The message types live in \<^verbatim>\<open>types/message\<close>, which the two components import.
  A message has an identifier, a role, a creation time in seconds, an ordered list of
  content blocks and the two flags \<^verbatim>\<open>display\<close> and \<^verbatim>\<open>sendToLLM\<close>.
\<close>

datatype role = User | Assistant

text \<open>
  Modelled from the spec: the content union of \<^verbatim>\<open>types/message\<close> (the declaration
  is not among the sources). The spec names two variants, \<^verbatim>\<open>text\<close> with a plain
  text payload and \<^verbatim>\<open>compactionMarker\<close> with a status string \<^verbatim>\<open>msg\<close>; every
  other variant is opaque pass-through data, kept here under a numeric tag.
\<close>

datatype message_content =
    TextContent string
  | CompactionMarkerContent string
  | OtherContent nat

record message =
  id_msg :: string
  role :: role
  created :: nat
  content :: "message_content list"
  display :: bool
  sendToLLM :: bool

text \<open>\<^verbatim>\<open>content.type === 'text'\<close> and \<^verbatim>\<open>content.type === 'compactionMarker'\<close>.\<close>

fun is_text :: "message_content \<Rightarrow> bool" where
  "is_text (TextContent _) = True"
| "is_text _ = False"

fun is_compactionMarker :: "message_content \<Rightarrow> bool" where
  "is_compactionMarker (CompactionMarkerContent _) = True"
| "is_compactionMarker _ = False"

section \<open>Values thrown, the clock, template strings\<close>

text \<open>
  JavaScript can throw any value. The catch block of \<^verbatim>\<open>performCompaction\<close> only asks
  whether the value is an \<^verbatim>\<open>Error\<close> (then it reads its \<^verbatim>\<open>message\<close>) or not.
\<close>

datatype thrown = ErrorObj string | OtherValue

text \<open>A number in a template literal is printed in decimal.\<close>

definition digit_char :: "nat \<Rightarrow> char" where
  "digit_char d = ''0123456789'' ! d"

fun string_of_nat :: "nat \<Rightarrow> string" where
  "string_of_nat n =
     (if n < 10 then [digit_char n]
      else string_of_nat (n div 10) @ [digit_char (n mod 10)])"

declare string_of_nat.simps [simp del]

section \<open>The world the coordinator runs in\<close>

text \<open>
  The request handed to \<^verbatim>\<open>manageContextFromBackend\<close> (lines 66-69) and what the
  awaited promise can do: reject with a thrown value, or resolve with a response whose
  \<^verbatim>\<open>messages\<close> are provider-shaped messages of a type \<open>'a\<close> left open.
\<close>

record request =
  req_messages :: "message list"
  manageAction :: string

datatype 'a outcome = Rejected thrown | Resolved "'a list"

text \<open>
  The state is passed explicitly. \<open>isCompacting\<close> and \<open>compactionError\<close> are the two
  \<^verbatim>\<open>useState\<close> cells of the provider (lines 31-32). \<open>caller\<close> is whatever the caller's
  callbacks \<^verbatim>\<open>setMessages\<close> and \<^verbatim>\<open>append\<close> act on. \<open>requests\<close> records every
  call of the remote summarization capability, in order. \<open>timers\<close> holds the callbacks
  registered with \<^verbatim>\<open>setTimeout\<close> and not yet run, each with its delay.
  \<^verbatim>\<open>Date.now()\<close> reads \<open>clock\<close> at the current tick and moves to the next tick, so two
  reads may or may not agree. \<^verbatim>\<open>console.error\<close> has no effect on any of this and is
  left out.
\<close>

record 'c world =
  isCompacting :: bool
  compactionError :: "string option"
  caller :: 'c
  requests :: "request list"
  timers :: "(nat \<times> ('c \<Rightarrow> 'c)) list"
  clock :: "nat \<Rightarrow> nat"
  ticks :: nat

definition init_world :: "'c \<Rightarrow> (nat \<Rightarrow> nat) \<Rightarrow> 'c world" where
  "init_world c clk =
     \<lparr>isCompacting = False, compactionError = None, caller = c, requests = [],
      timers = [], clock = clk, ticks = 0\<rparr>"

definition Date_now :: "'c world \<Rightarrow> nat \<times> 'c world" where
  "Date_now w = (clock w (ticks w), w\<lparr>ticks := ticks w + 1\<rparr>)"

text \<open>
  \<^verbatim>\<open>setTimeout(cb, delay)\<close> registers a callback. All callbacks of this program have
  the same delay, so they run in the order they were registered.
\<close>

definition setTimeout :: "('c \<Rightarrow> 'c) \<Rightarrow> nat \<Rightarrow> 'c world \<Rightarrow> 'c world" where
  "setTimeout cb delay w = w\<lparr>timers := timers w @ [(delay, cb)]\<rparr>"

definition run_timers :: "'c world \<Rightarrow> 'c world" where
  "run_timers w = w\<lparr>caller := fold snd (timers w) (caller w), timers := []\<rparr>"

text \<open>
  A caller that keeps the history it was last given by \<^verbatim>\<open>setMessages\<close> and the list
  of messages that \<^verbatim>\<open>append\<close> was called with.
\<close>

record chat =
  history :: "message list"
  submitted :: "message list"

definition chat_setMessages :: "message list \<Rightarrow> chat \<Rightarrow> chat" where
  "chat_setMessages ms c = c\<lparr>history := ms\<rparr>"

definition chat_append :: "message \<Rightarrow> chat \<Rightarrow> chat" where
  "chat_append m c = c\<lparr>submitted := submitted c @ [m]\<rparr>"

section \<open>ContextManager.tsx\<close>

text \<open>The object literal of lines 46-60, given the two clock readings.\<close>

definition compactionMarker :: "bool \<Rightarrow> nat \<Rightarrow> nat \<Rightarrow> message" where
  "compactionMarker isManual t_id t_created =
     \<lparr>id_msg = ''compaction-marker-'' @ string_of_nat t_id,
      role = Assistant,
      created = t_created div 1000,
      content =
        [CompactionMarkerContent
           (if isManual then ''Compacting conversation as requested...''
            else ''Context limit reached. Compacting conversation...'')],
      display = True,
      sendToLLM = False\<rparr>"

text \<open>Lines 84-92: the in-flight marker spread, with its content replaced.\<close>

definition completedMarker :: "message \<Rightarrow> message" where
  "completedMarker marker =
     marker\<lparr>content :=
       [CompactionMarkerContent ''Conversation compacted. Summary prepared to continue.'']\<rparr>"

text \<open>Lines 109-121.\<close>

definition errorMarker :: "nat \<Rightarrow> nat \<Rightarrow> message" where
  "errorMarker t_id t_created =
     \<lparr>id_msg = ''compaction-error-'' @ string_of_nat t_id,
      role = Assistant,
      created = t_created div 1000,
      content =
        [CompactionMarkerContent
           ''Compaction failed. Please try again or start a new session.''],
      display = True,
      sendToLLM = False\<rparr>"

text \<open>
  \<^verbatim>\<open>summaryResponse.messages.map(convertApiMessageToFrontendMessage ...)\<close>, lines 72-74.
  The conversion function is imported from \<^verbatim>\<open>./index\<close> and is a parameter here; it
  may throw, and then the map stops at that element.
\<close>

fun map_convert :: "('a \<Rightarrow> thrown + message) \<Rightarrow> 'a list \<Rightarrow> thrown + message list" where
  "map_convert f [] = Inr []"
| "map_convert f (x # xs) =
     (case f x of
        Inl e \<Rightarrow> Inl e
      | Inr y \<Rightarrow> (case map_convert f xs of Inl e \<Rightarrow> Inl e | Inr ys \<Rightarrow> Inr (y # ys)))"

text \<open>
  Lines 77-82: \<^verbatim>\<open>convertedMessages[0]\<close> is undefined on an empty array, and so is
  \<^verbatim>\<open>content[0]\<close>; the condition holds when both exist and the block's type is
  \<^verbatim>\<open>text\<close>. The result is the summary message the branch then works with.
\<close>

definition summary_guard :: "message list \<Rightarrow> message option" where
  "summary_guard convertedMessages =
     (case convertedMessages of
        [] \<Rightarrow> None
      | summaryMessage # _ \<Rightarrow>
          (case content summaryMessage of
             [] \<Rightarrow> None
           | c # _ \<Rightarrow> if is_text c then Some summaryMessage else None))"

text \<open>
  What \<^verbatim>\<open>performCompaction\<close> holds on to across the \<^verbatim>\<open>await\<close>: its arguments, the
  marker it built and the request it sent.
\<close>

record 'c suspended =
  k_messages :: "message list"
  k_setMessages :: "message list \<Rightarrow> 'c \<Rightarrow> 'c"
  k_append :: "message \<Rightarrow> 'c \<Rightarrow> 'c"
  k_marker :: message
  k_request :: request

text \<open>
  Lines 41-69, up to the point where the function awaits the remote call. Nothing in
  this part looks at \<open>isCompacting\<close>.
\<close>

definition performCompaction_start ::
  "message list \<Rightarrow> (message list \<Rightarrow> 'c \<Rightarrow> 'c) \<Rightarrow> (message \<Rightarrow> 'c \<Rightarrow> 'c) \<Rightarrow> bool \<Rightarrow>
   'c world \<Rightarrow> 'c suspended \<times> 'c world" where
  "performCompaction_start messages setMessages append_cb isManual w =
     (let w1 = w\<lparr>isCompacting := True\<rparr>;
          w2 = w1\<lparr>compactionError := None\<rparr>;
          (t_id, w3) = Date_now w2;
          (t_created, w4) = Date_now w3;
          marker = compactionMarker isManual t_id t_created;
          w5 = w4\<lparr>caller := setMessages (messages @ [marker]) (caller w4)\<rparr>;
          req = \<lparr>req_messages = messages, manageAction = ''summarize''\<rparr>;
          w6 = w5\<lparr>requests := requests w5 @ [req]\<rparr>
      in (\<lparr>k_messages = messages, k_setMessages = setMessages, k_append = append_cb,
           k_marker = marker, k_request = req\<rparr>, w6))"

text \<open>
  Lines 66-103, the rest of the \<^verbatim>\<open>try\<close> block once the awaited promise has settled.
  The first component says whether the block threw.
\<close>

definition try_rest ::
  "('a \<Rightarrow> bool \<Rightarrow> bool \<Rightarrow> thrown + message) \<Rightarrow> 'c suspended \<Rightarrow> 'a outcome \<Rightarrow>
   'c world \<Rightarrow> thrown option \<times> 'c world" where
  "try_rest convert k out w =
     (case out of
        Rejected e \<Rightarrow> (Some e, w)
      | Resolved api_messages \<Rightarrow>
          (case map_convert (\<lambda>apiMessage. convert apiMessage False True) api_messages of
             Inl e \<Rightarrow> (Some e, w)
           | Inr convertedMessages \<Rightarrow>
               (let w1 =
                  (case summary_guard convertedMessages of
                     Some summaryMessage \<Rightarrow>
                       (let w2 = w\<lparr>caller :=
                                  k_setMessages k [completedMarker (k_marker k), summaryMessage]
                                    (caller w)\<rparr>
                        in setTimeout (k_append k summaryMessage) 100 w2)
                   | None \<Rightarrow> w)
                in (None, w1\<lparr>isCompacting := False\<rparr>))))"

text \<open>Line 106.\<close>

definition error_message :: "thrown \<Rightarrow> string" where
  "error_message err =
     (case err of ErrorObj m \<Rightarrow> m | OtherValue \<Rightarrow> ''Unknown error during compaction'')"

text \<open>Lines 104-125, the \<^verbatim>\<open>catch\<close> block.\<close>

definition catch_block :: "'c suspended \<Rightarrow> thrown \<Rightarrow> 'c world \<Rightarrow> 'c world" where
  "catch_block k err w =
     (let w1 = w\<lparr>compactionError := Some (error_message err)\<rparr>;
          (t_id, w2) = Date_now w1;
          (t_created, w3) = Date_now w2;
          marker = errorMarker t_id t_created;
          w4 = w3\<lparr>caller := k_setMessages k (k_messages k @ [marker]) (caller w3)\<rparr>
      in w4\<lparr>isCompacting := False\<rparr>)"

text \<open>
  The part of \<^verbatim>\<open>performCompaction\<close> after the \<^verbatim>\<open>await\<close>. The result says how the
  promise of the async function settles: \<open>Inl\<close> when it rejects with a thrown value,
  \<open>Inr ()\<close> when it resolves.
\<close>

definition performCompaction_settle ::
  "('a \<Rightarrow> bool \<Rightarrow> bool \<Rightarrow> thrown + message) \<Rightarrow> 'c suspended \<Rightarrow> 'a outcome \<Rightarrow>
   'c world \<Rightarrow> (thrown + unit) \<times> 'c world" where
  "performCompaction_settle convert k out w =
     (case try_rest convert k out w of
        (None, w1) \<Rightarrow> (Inr (), w1)
      | (Some err, w1) \<Rightarrow> (Inr (), catch_block k err w1))"

text \<open>
  \<^verbatim>\<open>performCompaction\<close> run from its call to the settling of its promise, with no
  other code running in between. The remote capability \<^verbatim>\<open>manageContextFromBackend\<close>
  is a parameter: any function from the request to an outcome.
\<close>

definition performCompaction ::
  "('a \<Rightarrow> bool \<Rightarrow> bool \<Rightarrow> thrown + message) \<Rightarrow> (request \<Rightarrow> 'a outcome) \<Rightarrow>
   message list \<Rightarrow> (message list \<Rightarrow> 'c \<Rightarrow> 'c) \<Rightarrow> (message \<Rightarrow> 'c \<Rightarrow> 'c) \<Rightarrow> bool \<Rightarrow>
   'c world \<Rightarrow> (thrown + unit) \<times> 'c world" where
  "performCompaction convert manageContextFromBackend messages setMessages append_cb isManual w =
     (let (k, w1) = performCompaction_start messages setMessages append_cb isManual w
      in performCompaction_settle convert k (manageContextFromBackend (k_request k)) w1)"

text \<open>Lines 130-146. Both await \<^verbatim>\<open>performCompaction\<close> and settle as it does.\<close>

definition handleAutoCompaction ::
  "('a \<Rightarrow> bool \<Rightarrow> bool \<Rightarrow> thrown + message) \<Rightarrow> (request \<Rightarrow> 'a outcome) \<Rightarrow>
   message list \<Rightarrow> (message list \<Rightarrow> 'c \<Rightarrow> 'c) \<Rightarrow> (message \<Rightarrow> 'c \<Rightarrow> 'c) \<Rightarrow>
   'c world \<Rightarrow> (thrown + unit) \<times> 'c world" where
  "handleAutoCompaction convert manageContextFromBackend messages setMessages append_cb w =
     performCompaction convert manageContextFromBackend messages setMessages append_cb False w"

definition handleManualCompaction ::
  "('a \<Rightarrow> bool \<Rightarrow> bool \<Rightarrow> thrown + message) \<Rightarrow> (request \<Rightarrow> 'a outcome) \<Rightarrow>
   message list \<Rightarrow> (message list \<Rightarrow> 'c \<Rightarrow> 'c) \<Rightarrow>
   'c world \<Rightarrow> (thrown + unit) \<times> 'c world" where
  "handleManualCompaction convert manageContextFromBackend messages setMessages w =
     performCompaction convert manageContextFromBackend messages setMessages (\<lambda>_ c. c) True w"

text \<open>Lines 148-150.\<close>

definition hasCompactionMarker :: "message \<Rightarrow> bool" where
  "hasCompactionMarker m = list_ex is_compactionMarker (content m)"

section \<open>CompactionMarker.tsx\<close>

text \<open>
  Lines 9-13: \<^verbatim>\<open>find\<close> gives the first block of type \<^verbatim>\<open>compactionMarker\<close> or
  undefined; \<^verbatim>\<open>?.msg\<close> of undefined is undefined; \<^verbatim>\<open>||\<close> replaces undefined and the
  empty string by the default.
\<close>

definition markerText :: "message \<Rightarrow> string" where
  "markerText m =
     (case find is_compactionMarker (content m) of
        None \<Rightarrow> ''Conversation compacted''
      | Some compactionContent \<Rightarrow>
          (case compactionContent of
             CompactionMarkerContent s \<Rightarrow> if s = [] then ''Conversation compacted'' else s
           | _ \<Rightarrow> ''Conversation compacted''))"

text \<open>The element tree of lines 15-21: a tag, a class name and children, or a text node.\<close>

datatype element = Elem string string "element list" | TextNode string

definition CompactionMarker :: "message \<Rightarrow> element" where
  "CompactionMarker m =
     Elem ''div'' ''flex items-center text-xs text-gray-400 py-2''
       [Elem ''div'' ''flex-grow border-t border-gray-300'' [],
        Elem ''span'' ''px-3'' [TextNode (markerText m)],
        Elem ''div'' ''flex-grow border-t border-gray-300'' []]"

text \<open>The text a rendered tree shows.\<close>

fun text_of :: "element \<Rightarrow> string" where
  "text_of (TextNode s) = s"
| "text_of (Elem _ _ children) = concat (map text_of children)"

section \<open>The scenarios of the specification\<close>

text \<open>
  The inputs of the two scenarios of the specification, section 8: a history of one user
  message, a summarizer that answers with one assistant message holding the text
  \<^verbatim>\<open>Summary of conversation.\<close>, one that rejects with \<^verbatim>\<open>network error\<close>, and one
  that answers with no message at all. Provider-shaped messages have a role and content
  blocks here; the conversion of the scenarios copies both and sets the two flags as it
  is told. The clock of the scenarios stands still at 1000 ms.
\<close>

record api_message =
  api_role :: role
  api_content :: "message_content list"

definition scenario_convert :: "api_message \<Rightarrow> bool \<Rightarrow> bool \<Rightarrow> thrown + message" where
  "scenario_convert m d s =
     Inr \<lparr>id_msg = ''summary'', role = api_role m, created = 0, content = api_content m,
          display = d, sendToLLM = s\<rparr>"

definition scenario_history :: "message list" where
  "scenario_history =
     [\<lparr>id_msg = ''1'', role = User, created = 0, content = [TextContent ''hi''],
       display = True, sendToLLM = True\<rparr>]"

definition scenario_api_summary :: api_message where
  "scenario_api_summary =
     \<lparr>api_role = Assistant, api_content = [TextContent ''Summary of conversation.'']\<rparr>"

definition scenario_summary :: message where
  "scenario_summary =
     \<lparr>id_msg = ''summary'', role = Assistant, created = 0,
      content = [TextContent ''Summary of conversation.''], display = False, sendToLLM = True\<rparr>"

definition scenario_summarizer :: "request \<Rightarrow> api_message outcome" where
  "scenario_summarizer req = Resolved [scenario_api_summary]"

definition failing_summarizer :: "request \<Rightarrow> api_message outcome" where
  "failing_summarizer req = Rejected (ErrorObj ''network error'')"

definition empty_summarizer :: "request \<Rightarrow> api_message outcome" where
  "empty_summarizer req = Resolved []"

text \<open>
  A summarizer that answers with the summary only when it is asked to \<^verbatim>\<open>summarize\<close>
  exactly the history of the scenarios, and rejects every other request.
\<close>

definition exact_summarizer :: "request \<Rightarrow> api_message outcome" where
  "exact_summarizer req =
     (if req_messages req = scenario_history \<and> manageAction req = ''summarize''
      then Resolved [scenario_api_summary]
      else Rejected (ErrorObj ''unexpected request''))"


definition scenario_clock :: "nat \<Rightarrow> nat" where
  "scenario_clock tick = 1000"

definition scenario_world :: "chat world" where
  "scenario_world = init_world \<lparr>history = scenario_history, submitted = []\<rparr> scenario_clock"

text \<open>Reading a decimal digit back, for the proof that the printing is injective.\<close>

definition digit_val :: "char \<Rightarrow> nat" where
  "digit_val c = of_char c - 48"

section \<open>How the two halves of performCompaction compute\<close>

lemma start_fst:
  "fst (performCompaction_start messages setMessages append_cb isManual w) =
     \<lparr>k_messages = messages, k_setMessages = setMessages, k_append = append_cb,
      k_marker = compactionMarker isManual (clock w (ticks w)) (clock w (ticks w + 1)),
      k_request = \<lparr>req_messages = messages, manageAction = ''summarize''\<rparr>\<rparr>"
  by (simp add: performCompaction_start_def Date_now_def Let_def)

lemma start_snd:
  "snd (performCompaction_start messages setMessages append_cb isManual w) =
     w\<lparr>isCompacting := True, compactionError := None, ticks := ticks w + 2,
       caller := setMessages
          (messages @ [compactionMarker isManual (clock w (ticks w)) (clock w (ticks w + 1))])
          (caller w),
       requests := requests w @ [\<lparr>req_messages = messages, manageAction = ''summarize''\<rparr>]\<rparr>"
  by (simp add: performCompaction_start_def Date_now_def Let_def)

lemma performCompaction_unfold:
  "performCompaction convert remote messages setMessages append_cb isManual w =
     performCompaction_settle convert
       (fst (performCompaction_start messages setMessages append_cb isManual w))
       (remote \<lparr>req_messages = messages, manageAction = ''summarize''\<rparr>)
       (snd (performCompaction_start messages setMessages append_cb isManual w))"
  by (simp add: performCompaction_def case_prod_beta start_fst)

lemma settle_rejected:
  "performCompaction_settle convert k (Rejected e) w =
     (Inr (), w\<lparr>compactionError := Some (error_message e), ticks := ticks w + 2,
        caller := k_setMessages k
          (k_messages k @ [errorMarker (clock w (ticks w)) (clock w (ticks w + 1))]) (caller w),
        isCompacting := False\<rparr>)"
  by (simp add: performCompaction_settle_def try_rest_def catch_block_def Date_now_def Let_def)


lemma settle_success:
  "map_convert (\<lambda>m. convert m False True) api = Inr cs \<Longrightarrow> summary_guard cs = Some sm \<Longrightarrow>
   performCompaction_settle convert k (Resolved api) w =
     (Inr (), w\<lparr>caller := k_setMessages k [completedMarker (k_marker k), sm] (caller w),
        timers := timers w @ [(100, k_append k sm)],
        isCompacting := False\<rparr>)"
  by (simp add: performCompaction_settle_def try_rest_def setTimeout_def Let_def)

lemma settle_no_summary:
  "map_convert (\<lambda>m. convert m False True) api = Inr cs \<Longrightarrow> summary_guard cs = None \<Longrightarrow>
   performCompaction_settle convert k (Resolved api) w = (Inr (), w\<lparr>isCompacting := False\<rparr>)"
  by (simp add: performCompaction_settle_def try_rest_def Let_def)

lemma handleAuto_unfold:
  "handleAutoCompaction convert remote messages setMessages append_cb w =
     performCompaction_settle convert
       (fst (performCompaction_start messages setMessages append_cb False w))
       (remote \<lparr>req_messages = messages, manageAction = ''summarize''\<rparr>)
       (snd (performCompaction_start messages setMessages append_cb False w))"
  by (simp add: handleAutoCompaction_def performCompaction_unfold)

lemma handleManual_unfold:
  "handleManualCompaction convert remote messages setMessages w =
     performCompaction_settle convert
       (fst (performCompaction_start messages setMessages (\<lambda>_ c. c) True w))
       (remote \<lparr>req_messages = messages, manageAction = ''summarize''\<rparr>)
       (snd (performCompaction_start messages setMessages (\<lambda>_ c. c) True w))"
  by (simp add: handleManualCompaction_def performCompaction_unfold)


lemma settle_requests: "requests (snd (performCompaction_settle convert k out w)) = requests w"
  by (simp add: performCompaction_settle_def try_rest_def catch_block_def Date_now_def Let_def
      setTimeout_def split: outcome.splits sum.splits option.splits)

lemma settle_timers:
  "timers (snd (performCompaction_settle convert k out w)) =
     timers w @
       (case out of
          Rejected e \<Rightarrow> []
        | Resolved api \<Rightarrow>
            (case map_convert (\<lambda>m. convert m False True) api of
               Inl e \<Rightarrow> []
             | Inr cs \<Rightarrow>
                 (case summary_guard cs of None \<Rightarrow> [] | Some sm \<Rightarrow> [(100, k_append k sm)])))"
  by (simp add: performCompaction_settle_def try_rest_def catch_block_def Date_now_def Let_def
      setTimeout_def split: outcome.splits sum.splits option.splits)

lemma settle_submitted:
  "submitted (caller (snd (performCompaction_settle convert
       (k\<lparr>k_setMessages := chat_setMessages\<rparr>) out w))) = submitted (caller w)"
  by (simp add: performCompaction_settle_def try_rest_def catch_block_def Date_now_def Let_def
      setTimeout_def chat_setMessages_def split: outcome.splits sum.splits option.splits)

section \<open>Decimal printing\<close>

lemma digit_val_digit_char: "d < 10 \<Longrightarrow> digit_val (digit_char d) = d"
proof -
  assume "d < 10"
  then consider "d = 0" | "d = 1" | "d = 2" | "d = 3" | "d = 4" | "d = 5" | "d = 6" | "d = 7"
    | "d = 8" | "d = 9" by atomize_elim presburger
  then show ?thesis
    by cases (simp_all add: digit_val_def digit_char_def)
qed

lemma nat_of_string_of_nat:
  "foldl (\<lambda>acc c. 10 * acc + digit_val c) 0 (string_of_nat n) = n"
proof (induction n rule: string_of_nat.induct)
  case (1 n)
  show ?case
  proof (cases "n < 10")
    case True
    then show ?thesis by (simp add: string_of_nat.simps [of n] digit_val_digit_char)
  next
    case False
    with 1 show ?thesis
      by (simp add: string_of_nat.simps [of n] digit_val_digit_char)
  qed
qed

lemma string_of_nat_inj: "string_of_nat m = string_of_nat n \<Longrightarrow> m = n"
  by (metis nat_of_string_of_nat)

lemma string_of_nat_eq_iff: "(string_of_nat m = string_of_nat n) = (m = n)"
  using string_of_nat_inj by blast

lemma string_of_nat_1000: "string_of_nat 1000 = ''1000''"
  by (simp add: string_of_nat.simps digit_char_def)

lemma scenario_world_simps:
  "isCompacting scenario_world = False"
  "compactionError scenario_world = None"
  "caller scenario_world = \<lparr>history = scenario_history, submitted = []\<rparr>"
  "requests scenario_world = []"
  "timers scenario_world = []"
  "clock scenario_world t = 1000"
  "ticks scenario_world = 0"
  by (simp_all add: scenario_world_def init_world_def scenario_clock_def)

section \<open>Success: the history collapses to the completed marker and the summary\<close>

text \<open>
  C1. Let the remote call resolve, let the conversion give at least one message and let
  the first content block of the first converted message be of type text. Then, for a
  history \<open>H\<close> of any length: after the first half the caller's history is \<open>H\<close> with the
  in-flight marker appended, and when \<^verbatim>\<open>performCompaction\<close> has completed the history
  given to \<^verbatim>\<open>setMessages\<close> is exactly the completed marker followed by the summary
  message. The completed marker has the identifier of the in-flight marker and the one
  content block \<^verbatim>\<open>Conversation compacted. Summary prepared to continue.\<close>
\<close>

theorem performCompaction_success_history:
  assumes "remote \<lparr>req_messages = H, manageAction = ''summarize''\<rparr> = Resolved api"
    and "map_convert (\<lambda>m. convert m False True) api = Inr (summaryMessage # rest)"
    and "content summaryMessage = c # cs"
    and "is_text c"
  shows "history (caller (snd (performCompaction_start H chat_setMessages append_cb isManual w)))
           = H @ [k_marker (fst (performCompaction_start H chat_setMessages append_cb isManual w))]
       \<and> history (caller (snd (performCompaction convert remote H chat_setMessages append_cb isManual w)))
           = [completedMarker (k_marker (fst (performCompaction_start H chat_setMessages append_cb isManual w))),
              summaryMessage]
       \<and> id_msg (completedMarker (k_marker (fst (performCompaction_start H chat_setMessages append_cb isManual w))))
           = id_msg (k_marker (fst (performCompaction_start H chat_setMessages append_cb isManual w)))
       \<and> content (completedMarker (k_marker (fst (performCompaction_start H chat_setMessages append_cb isManual w))))
           = [CompactionMarkerContent ''Conversation compacted. Summary prepared to continue.'']"
proof -
  have g: "summary_guard (summaryMessage # rest) = Some summaryMessage"
    using assms(3,4) by (simp add: summary_guard_def)
  note s = settle_success [where convert = convert, OF assms(2) g]
  show ?thesis
    by (simp add: performCompaction_unfold assms(1) s start_fst start_snd
        chat_setMessages_def completedMarker_def)
qed

theorem performCompaction_success_history_witness:
  "scenario_summarizer \<lparr>req_messages = scenario_history, manageAction = ''summarize''\<rparr>
     = Resolved [scenario_api_summary]
   \<and> map_convert (\<lambda>m. scenario_convert m False True) [scenario_api_summary]
     = Inr [scenario_summary]
   \<and> content scenario_summary = [TextContent ''Summary of conversation.'']
   \<and> is_text (TextContent ''Summary of conversation.'')
   \<and> history (caller (snd (performCompaction scenario_convert scenario_summarizer
        scenario_history chat_setMessages chat_append True scenario_world)))
     = [\<lparr>id_msg = ''compaction-marker-1000'', role = Assistant, created = 1,
         content = [CompactionMarkerContent
           ''Conversation compacted. Summary prepared to continue.''],
         display = True, sendToLLM = False\<rparr>,
        scenario_summary]"
proof -
  have h1: "scenario_summarizer \<lparr>req_messages = scenario_history, manageAction = ''summarize''\<rparr>
      = Resolved [scenario_api_summary]"
    by (simp add: scenario_summarizer_def)
  have h2: "map_convert (\<lambda>m. scenario_convert m False True) [scenario_api_summary]
      = Inr (scenario_summary # [])"
    by (simp add: scenario_convert_def scenario_api_summary_def scenario_summary_def)
  have h3: "content scenario_summary = TextContent ''Summary of conversation.'' # []"
    by (simp add: scenario_summary_def)
  have h4: "is_text (TextContent ''Summary of conversation.'')"
    by simp
  from performCompaction_success_history
    [where convert = scenario_convert and remote = scenario_summarizer, OF h1 h2 h3 h4,
     of chat_append True scenario_world]
  show ?thesis
    using h1 h2 h3
    by (simp add: start_fst scenario_world_simps compactionMarker_def completedMarker_def
        string_of_nat_1000)
qed

section \<open>Failure: the error marker takes the place of the in-flight marker\<close>

text \<open>
  C2, as the specification has it: after a rejected summarization call the history is the
  original \<open>N\<close> messages, the in-flight marker and an error marker, \<open>N + 2\<close> entries.
  In the failure scenario the history has one message; the final history has two entries,
  not three, and the in-flight marker is not among them.
\<close>

theorem rejected_history_counterexample:
  "length (history (caller (snd (performCompaction scenario_convert failing_summarizer
      scenario_history chat_setMessages chat_append True scenario_world))))
     \<noteq> length scenario_history + 2
   \<and> k_marker (fst (performCompaction_start scenario_history chat_setMessages chat_append True
        scenario_world))
     \<notin> set (history (caller (snd (performCompaction scenario_convert failing_summarizer
         scenario_history chat_setMessages chat_append True scenario_world))))"
  by (simp add: performCompaction_unfold failing_summarizer_def settle_rejected start_fst start_snd
      scenario_world_simps chat_setMessages_def scenario_history_def compactionMarker_def
      errorMarker_def)

text \<open>
  C2, amended. The catch block builds the new history from the \<^verbatim>\<open>messages\<close> argument
  (line 123), which is the history before the in-flight marker. For every history \<open>H\<close>
  of length \<open>N\<close> and a summarization call that rejects with \<open>e\<close>, the final history is
  \<open>H\<close>, unaltered, followed by exactly one error marker, \<open>N + 1\<close> entries;
  \<open>compactionError\<close> holds the message of \<open>e\<close> and \<open>isCompacting\<close> is false again.
\<close>

theorem performCompaction_rejected_history:
  assumes "remote \<lparr>req_messages = H, manageAction = ''summarize''\<rparr> = Rejected e"
  shows "history (caller (snd (performCompaction convert remote H chat_setMessages append_cb isManual w)))
           = H @ [errorMarker (clock w (ticks w + 2)) (clock w (ticks w + 3))]
       \<and> length (history (caller (snd (performCompaction convert remote H chat_setMessages append_cb isManual w))))
           = length H + 1
       \<and> compactionError (snd (performCompaction convert remote H chat_setMessages append_cb isManual w))
           = Some (error_message e)
       \<and> \<not> isCompacting (snd (performCompaction convert remote H chat_setMessages append_cb isManual w))"
  by (simp add: performCompaction_unfold assms settle_rejected start_fst start_snd
      chat_setMessages_def numeral_3_eq_3 numeral_2_eq_2)

theorem performCompaction_rejected_history_witness:
  "failing_summarizer \<lparr>req_messages = scenario_history, manageAction = ''summarize''\<rparr>
     = Rejected (ErrorObj ''network error'')
   \<and> history (caller (snd (performCompaction scenario_convert failing_summarizer
        scenario_history chat_setMessages chat_append True scenario_world)))
     = scenario_history @
       [\<lparr>id_msg = ''compaction-error-1000'', role = Assistant, created = 1,
         content = [CompactionMarkerContent
           ''Compaction failed. Please try again or start a new session.''],
         display = True, sendToLLM = False\<rparr>]
   \<and> compactionError (snd (performCompaction scenario_convert failing_summarizer
        scenario_history chat_setMessages chat_append True scenario_world))
     = Some ''network error''"
proof -
  have h: "failing_summarizer \<lparr>req_messages = scenario_history, manageAction = ''summarize''\<rparr>
     = Rejected (ErrorObj ''network error'')"
    by (simp add: failing_summarizer_def)
  from performCompaction_rejected_history [where remote = failing_summarizer, OF h,
      of scenario_convert chat_append True scenario_world]
  show ?thesis
    using h by (simp add: scenario_world_simps errorMarker_def string_of_nat_1000 error_message_def)
qed

section \<open>A response without a usable summary\<close>

text \<open>
  C3 says that a response whose first message is missing, or does not start with a text
  block, is handled as a failure. Here is the code on the manual scenario with a
  summarizer that resolves with no message: the condition of lines 78-82 is false, the
  function goes on to line 103, and nothing else happens. \<open>compactionError\<close> stays
  empty, no error marker is appended, and the history keeps the in-flight marker with its
  text \<^verbatim>\<open>Compacting conversation as requested...\<close> although \<open>isCompacting\<close> is false.
\<close>

theorem empty_response_leaves_inflight_marker:
  "compactionError (snd (performCompaction scenario_convert empty_summarizer
      scenario_history chat_setMessages chat_append True scenario_world)) = None
   \<and> history (caller (snd (performCompaction scenario_convert empty_summarizer
      scenario_history chat_setMessages chat_append True scenario_world)))
     = scenario_history @
       [\<lparr>id_msg = ''compaction-marker-1000'', role = Assistant, created = 1,
         content = [CompactionMarkerContent ''Compacting conversation as requested...''],
         display = True, sendToLLM = False\<rparr>]
   \<and> \<not> isCompacting (snd (performCompaction scenario_convert empty_summarizer
      scenario_history chat_setMessages chat_append True scenario_world))"
proof -
  have c: "map_convert (\<lambda>m. scenario_convert m False True) [] = Inr []" by simp
  have g: "summary_guard [] = None" by (simp add: summary_guard_def)
  note s = settle_no_summary [where convert = scenario_convert, OF c g]
  show ?thesis
    by (simp add: performCompaction_unfold empty_summarizer_def s start_snd
      scenario_world_simps chat_setMessages_def compactionMarker_def string_of_nat_1000)
qed

section \<open>A trigger while a compaction is in flight\<close>

text \<open>
  C4, as the specification has it: a second trigger while \<open>isCompacting\<close> is true starts
  no second remote call and does not touch the history. In the scenario an automatic
  compaction has started and waits for the summarizer: \<open>isCompacting\<close> is true and one
  request has been sent. A manual trigger in that state sends a second request and
  replaces the history.
\<close>

theorem second_trigger_counterexample:
  "isCompacting (snd (performCompaction_start scenario_history chat_setMessages chat_append False
      scenario_world))
   \<and> length (requests (snd (performCompaction_start scenario_history chat_setMessages chat_append
        False scenario_world))) = 1
   \<and> length (requests (snd (handleManualCompaction scenario_convert failing_summarizer
        scenario_history chat_setMessages
        (snd (performCompaction_start scenario_history chat_setMessages chat_append False
           scenario_world))))) = 2
   \<and> history (caller (snd (handleManualCompaction scenario_convert failing_summarizer
        scenario_history chat_setMessages
        (snd (performCompaction_start scenario_history chat_setMessages chat_append False
           scenario_world)))))
     \<noteq> history (caller (snd (performCompaction_start scenario_history chat_setMessages
          chat_append False scenario_world)))"
  by (simp add: handleManual_unfold settle_requests failing_summarizer_def settle_rejected
      start_fst start_snd scenario_world_simps chat_setMessages_def compactionMarker_def
      errorMarker_def)

text \<open>
  C4, amended. \<^verbatim>\<open>performCompaction\<close> does not read \<open>isCompacting\<close>. In every state in
  which \<open>isCompacting\<close> is true, a trigger starts its own remote summarization call with
  the messages it was given, one more request, and replaces the caller's history by those
  messages followed by its own in-flight marker; \<open>isCompacting\<close> stays true until a
  call settles. Keeping to one compaction at a time is left to the caller.
\<close>

theorem trigger_while_compacting:
  assumes "isCompacting w"
  shows "requests (snd (performCompaction_start H setMessages append_cb isManual w))
           = requests w @ [\<lparr>req_messages = H, manageAction = ''summarize''\<rparr>]
       \<and> caller (snd (performCompaction_start H setMessages append_cb isManual w))
           = setMessages (H @ [compactionMarker isManual (clock w (ticks w)) (clock w (ticks w + 1))])
               (caller w)
       \<and> isCompacting (snd (performCompaction_start H setMessages append_cb isManual w))
       \<and> requests (snd (handleManualCompaction convert remote H setMessages w))
           = requests w @ [\<lparr>req_messages = H, manageAction = ''summarize''\<rparr>]
       \<and> requests (snd (handleAutoCompaction convert remote H setMessages append_cb w))
           = requests w @ [\<lparr>req_messages = H, manageAction = ''summarize''\<rparr>]"
  by (simp add: handleManual_unfold handleAuto_unfold settle_requests start_snd)

theorem trigger_while_compacting_witness:
  "isCompacting (snd (performCompaction_start scenario_history chat_setMessages chat_append False
      scenario_world))
   \<and> requests (snd (handleManualCompaction scenario_convert scenario_summarizer
        [] chat_setMessages
        (snd (performCompaction_start scenario_history chat_setMessages chat_append False
           scenario_world))))
     = [\<lparr>req_messages = scenario_history, manageAction = ''summarize''\<rparr>,
        \<lparr>req_messages = [], manageAction = ''summarize''\<rparr>]"
proof -
  have h: "isCompacting (snd (performCompaction_start scenario_history chat_setMessages
      chat_append False scenario_world))"
    by (simp add: start_snd)
  from trigger_while_compacting [OF h, where H = "[]" and setMessages = chat_setMessages
      and append_cb = chat_append and isManual = True and convert = scenario_convert
      and remote = scenario_summarizer]
  show ?thesis
    using h by (simp add: start_snd scenario_world_simps)
qed

section \<open>Resuming with the summary\<close>

text \<open>
  C5. The callback registered at lines 98-100 is the only place where \<^verbatim>\<open>append\<close> is
  called. Whatever \<^verbatim>\<open>append\<close> is, a compaction adds one timer that calls it with the
  summary message when the condition of lines 78-82 holds, and no timer otherwise (the
  remote call rejects, the conversion throws, or the condition fails). For the caller
  that records the calls of \<^verbatim>\<open>append\<close>, starting with no timer pending: once the
  timers have run, \<^verbatim>\<open>append\<close> has been called exactly once, with the summary message,
  after a successful compaction, and not at all after any other.
\<close>

theorem resume_once_with_summary:
  assumes "timers w = []"
  shows "submitted (caller (run_timers (snd (performCompaction convert remote H chat_setMessages
            chat_append isManual w))))
         = submitted (caller w) @
             (case remote \<lparr>req_messages = H, manageAction = ''summarize''\<rparr> of
                Rejected e \<Rightarrow> []
              | Resolved api \<Rightarrow>
                  (case map_convert (\<lambda>m. convert m False True) api of
                     Inl e \<Rightarrow> []
                   | Inr convertedMessages \<Rightarrow>
                       (case summary_guard convertedMessages of
                          None \<Rightarrow> []
                        | Some summaryMessage \<Rightarrow> [summaryMessage])))
       \<and> timers (snd (performCompaction convert remote H setMessages append_cb isManual v))
         = timers v @
             (case remote \<lparr>req_messages = H, manageAction = ''summarize''\<rparr> of
                Rejected e \<Rightarrow> []
              | Resolved api \<Rightarrow>
                  (case map_convert (\<lambda>m. convert m False True) api of
                     Inl e \<Rightarrow> []
                   | Inr convertedMessages \<Rightarrow>
                       (case summary_guard convertedMessages of
                          None \<Rightarrow> []
                        | Some summaryMessage \<Rightarrow> [(100, append_cb summaryMessage)])))"
proof -
  let ?k = "fst (performCompaction_start H chat_setMessages chat_append isManual w)"
  let ?w1 = "snd (performCompaction_start H chat_setMessages chat_append isManual w)"
  let ?out = "remote \<lparr>req_messages = H, manageAction = ''summarize''\<rparr>"
  let ?w2 = "snd (performCompaction_settle convert ?k ?out ?w1)"
  have k: "?k = ?k\<lparr>k_setMessages := chat_setMessages\<rparr>" by (simp add: start_fst)
  have s: "submitted (caller ?w2) = submitted (caller w)"
    using settle_submitted [of convert ?k ?out ?w1] k
    by (simp add: start_snd chat_setMessages_def)
  have t: "timers ?w1 = []" using assms by (simp add: start_snd)
  have a: "k_append ?k = chat_append" by (simp add: start_fst)
  have first: "submitted (caller (run_timers (snd (performCompaction convert remote H
      chat_setMessages chat_append isManual w))))
    = submitted (caller w) @
             (case ?out of
                Rejected e \<Rightarrow> []
              | Resolved api \<Rightarrow>
                  (case map_convert (\<lambda>m. convert m False True) api of
                     Inl e \<Rightarrow> []
                   | Inr convertedMessages \<Rightarrow>
                       (case summary_guard convertedMessages of
                          None \<Rightarrow> []
                        | Some summaryMessage \<Rightarrow> [summaryMessage])))"
    unfolding performCompaction_unfold run_timers_def
    using s t a settle_timers [of convert ?k ?out ?w1]
    by (simp add: chat_append_def split: outcome.splits sum.splits option.splits)
  have second: "timers (snd (performCompaction convert remote H setMessages append_cb isManual v))
         = timers v @
             (case ?out of
                Rejected e \<Rightarrow> []
              | Resolved api \<Rightarrow>
                  (case map_convert (\<lambda>m. convert m False True) api of
                     Inl e \<Rightarrow> []
                   | Inr convertedMessages \<Rightarrow>
                       (case summary_guard convertedMessages of
                          None \<Rightarrow> []
                        | Some summaryMessage \<Rightarrow> [(100, append_cb summaryMessage)])))"
    by (simp add: performCompaction_unfold settle_timers start_fst start_snd
        split: outcome.splits sum.splits option.splits)
  from first second show ?thesis by simp
qed

theorem resume_once_with_summary_witness:
  "timers scenario_world = []
   \<and> submitted (caller (run_timers (snd (performCompaction scenario_convert scenario_summarizer
        scenario_history chat_setMessages chat_append False scenario_world))))
     = [scenario_summary]
   \<and> submitted (caller (run_timers (snd (performCompaction scenario_convert failing_summarizer
        scenario_history chat_setMessages chat_append False scenario_world))))
     = []"
proof -
  have h: "timers scenario_world = []" by (simp add: scenario_world_simps)
  have g: "summary_guard [scenario_summary] = Some scenario_summary"
    by (simp add: summary_guard_def scenario_summary_def)
  have c: "map_convert (\<lambda>m. scenario_convert m False True) [scenario_api_summary]
      = Inr [scenario_summary]"
    by (simp add: scenario_convert_def scenario_api_summary_def scenario_summary_def)
  from resume_once_with_summary [OF h, where convert = scenario_convert
        and remote = scenario_summarizer and H = scenario_history and isManual = False
        and setMessages = chat_setMessages and append_cb = chat_append and v = scenario_world]
    resume_once_with_summary [OF h, where convert = scenario_convert
        and remote = failing_summarizer and H = scenario_history and isManual = False
        and setMessages = chat_setMessages and append_cb = chat_append and v = scenario_world]
  show ?thesis
    using h g c
    by (simp add: scenario_summarizer_def failing_summarizer_def scenario_world_simps)
qed

section \<open>The summarization request\<close>

text \<open>
  C6. For every history \<open>H\<close> the trigger is given, a compaction applies the remote
  capability to the request made of \<open>H\<close> itself and the action tag \<^verbatim>\<open>summarize\<close>,
  and to nothing else: everything after the \<^verbatim>\<open>await\<close> runs on the outcome of that one
  application, so two remote capabilities that agree on this request give the same
  compaction, whatever they do on other requests. That request is the one and only
  request the compaction adds to the record of remote calls. The in-flight marker of the
  same operation goes to \<^verbatim>\<open>setMessages\<close> only: the history set is \<open>H\<close> with the marker
  appended, the request holds \<open>H\<close> without it.
\<close>

theorem summarize_request_is_pre_marker_history:
  "performCompaction convert remote H setMessages append_cb isManual w
     = performCompaction_settle convert
         (fst (performCompaction_start H setMessages append_cb isManual w))
         (remote \<lparr>req_messages = H, manageAction = ''summarize''\<rparr>)
         (snd (performCompaction_start H setMessages append_cb isManual w))
   \<and> handleManualCompaction convert remote H setMessages w
     = performCompaction_settle convert
         (fst (performCompaction_start H setMessages (\<lambda>_ c. c) True w))
         (remote \<lparr>req_messages = H, manageAction = ''summarize''\<rparr>)
         (snd (performCompaction_start H setMessages (\<lambda>_ c. c) True w))
   \<and> handleAutoCompaction convert remote H setMessages append_cb w
     = performCompaction_settle convert
         (fst (performCompaction_start H setMessages append_cb False w))
         (remote \<lparr>req_messages = H, manageAction = ''summarize''\<rparr>)
         (snd (performCompaction_start H setMessages append_cb False w))
   \<and> (remote' \<lparr>req_messages = H, manageAction = ''summarize''\<rparr>
         = remote \<lparr>req_messages = H, manageAction = ''summarize''\<rparr> \<longrightarrow>
        performCompaction convert remote' H setMessages append_cb isManual w
          = performCompaction convert remote H setMessages append_cb isManual w
        \<and> handleManualCompaction convert remote' H setMessages w
          = handleManualCompaction convert remote H setMessages w
        \<and> handleAutoCompaction convert remote' H setMessages append_cb w
          = handleAutoCompaction convert remote H setMessages append_cb w)
   \<and> requests (snd (performCompaction convert remote H setMessages append_cb isManual w))
     = requests w @ [\<lparr>req_messages = H, manageAction = ''summarize''\<rparr>]
   \<and> requests (snd (handleManualCompaction convert remote H setMessages w))
     = requests w @ [\<lparr>req_messages = H, manageAction = ''summarize''\<rparr>]
   \<and> requests (snd (handleAutoCompaction convert remote H setMessages append_cb w))
     = requests w @ [\<lparr>req_messages = H, manageAction = ''summarize''\<rparr>]
   \<and> k_request (fst (performCompaction_start H setMessages append_cb isManual w))
     = \<lparr>req_messages = H, manageAction = ''summarize''\<rparr>
   \<and> history (caller (snd (performCompaction_start H chat_setMessages chat_append isManual cw)))
     = H @ [k_marker (fst (performCompaction_start H chat_setMessages chat_append isManual cw))]
   \<and> req_messages (k_request (fst (performCompaction_start H chat_setMessages chat_append
        isManual cw)))
     \<noteq> history (caller (snd (performCompaction_start H chat_setMessages chat_append isManual cw)))"
proof -
  have run: "performCompaction convert r H setMessages append_cb isManual w
     = performCompaction_settle convert
         (fst (performCompaction_start H setMessages append_cb isManual w))
         (r \<lparr>req_messages = H, manageAction = ''summarize''\<rparr>)
         (snd (performCompaction_start H setMessages append_cb isManual w))" for r
    by (rule performCompaction_unfold)
  have manual: "handleManualCompaction convert r H setMessages w
     = performCompaction_settle convert
         (fst (performCompaction_start H setMessages (\<lambda>_ c. c) True w))
         (r \<lparr>req_messages = H, manageAction = ''summarize''\<rparr>)
         (snd (performCompaction_start H setMessages (\<lambda>_ c. c) True w))" for r
    by (rule handleManual_unfold)
  have auto: "handleAutoCompaction convert r H setMessages append_cb w
     = performCompaction_settle convert
         (fst (performCompaction_start H setMessages append_cb False w))
         (r \<lparr>req_messages = H, manageAction = ''summarize''\<rparr>)
         (snd (performCompaction_start H setMessages append_cb False w))" for r
    by (rule handleAuto_unfold)
  have agree: "remote' \<lparr>req_messages = H, manageAction = ''summarize''\<rparr>
         = remote \<lparr>req_messages = H, manageAction = ''summarize''\<rparr> \<longrightarrow>
        performCompaction convert remote' H setMessages append_cb isManual w
          = performCompaction convert remote H setMessages append_cb isManual w
        \<and> handleManualCompaction convert remote' H setMessages w
          = handleManualCompaction convert remote H setMessages w
        \<and> handleAutoCompaction convert remote' H setMessages append_cb w
          = handleAutoCompaction convert remote H setMessages append_cb w"
    by (simp add: run manual auto)
  have logged: "requests (snd (performCompaction convert remote H setMessages append_cb isManual w))
       = requests w @ [\<lparr>req_messages = H, manageAction = ''summarize''\<rparr>]
     \<and> requests (snd (handleManualCompaction convert remote H setMessages w))
       = requests w @ [\<lparr>req_messages = H, manageAction = ''summarize''\<rparr>]
     \<and> requests (snd (handleAutoCompaction convert remote H setMessages append_cb w))
       = requests w @ [\<lparr>req_messages = H, manageAction = ''summarize''\<rparr>]"
    by (simp add: run manual auto settle_requests start_snd)
  have marker: "k_request (fst (performCompaction_start H setMessages append_cb isManual w))
       = \<lparr>req_messages = H, manageAction = ''summarize''\<rparr>
     \<and> history (caller (snd (performCompaction_start H chat_setMessages chat_append isManual cw)))
       = H @ [k_marker (fst (performCompaction_start H chat_setMessages chat_append isManual cw))]
     \<and> req_messages (k_request (fst (performCompaction_start H chat_setMessages chat_append
          isManual cw)))
       \<noteq> history (caller (snd (performCompaction_start H chat_setMessages chat_append isManual cw)))"
    by (simp add: start_snd start_fst chat_setMessages_def)
  from run [of remote] manual [of remote] auto [of remote] agree logged marker
  show ?thesis by blast
qed

text \<open>
  The summarizer that accepts nothing but the scenario's history under the tag
  \<^verbatim>\<open>summarize\<close> agrees with the scenario's summarizer on the request of the
  compaction, so the compaction with it is the successful one: no error is recorded and
  the history collapses to the completed marker and the summary.
\<close>

theorem summarize_request_is_pre_marker_history_witness:
  "exact_summarizer \<lparr>req_messages = scenario_history, manageAction = ''summarize''\<rparr>
     = scenario_summarizer \<lparr>req_messages = scenario_history, manageAction = ''summarize''\<rparr>
   \<and> exact_summarizer \<lparr>req_messages = scenario_history @
          [compactionMarker True 1000 1000], manageAction = ''summarize''\<rparr>
     = Rejected (ErrorObj ''unexpected request'')
   \<and> performCompaction scenario_convert exact_summarizer scenario_history chat_setMessages
        chat_append True scenario_world
     = performCompaction scenario_convert scenario_summarizer scenario_history chat_setMessages
        chat_append True scenario_world
   \<and> compactionError (snd (performCompaction scenario_convert exact_summarizer scenario_history
        chat_setMessages chat_append True scenario_world)) = None
   \<and> history (caller (snd (performCompaction scenario_convert exact_summarizer scenario_history
        chat_setMessages chat_append True scenario_world)))
     = [\<lparr>id_msg = ''compaction-marker-1000'', role = Assistant, created = 1,
         content = [CompactionMarkerContent
           ''Conversation compacted. Summary prepared to continue.''],
         display = True, sendToLLM = False\<rparr>,
        scenario_summary]"
proof -
  have h: "exact_summarizer \<lparr>req_messages = scenario_history, manageAction = ''summarize''\<rparr>
     = scenario_summarizer \<lparr>req_messages = scenario_history, manageAction = ''summarize''\<rparr>"
    by (simp add: exact_summarizer_def scenario_summarizer_def)
  have other: "exact_summarizer \<lparr>req_messages = scenario_history @
          [compactionMarker True 1000 1000], manageAction = ''summarize''\<rparr>
     = Rejected (ErrorObj ''unexpected request'')"
    by (simp add: exact_summarizer_def)
  have c: "map_convert (\<lambda>m. scenario_convert m False True) [scenario_api_summary]
      = Inr [scenario_summary]"
    by (simp add: scenario_convert_def scenario_api_summary_def scenario_summary_def)
  have g: "summary_guard [scenario_summary] = Some scenario_summary"
    by (simp add: summary_guard_def scenario_summary_def)
  note s = settle_success [where convert = scenario_convert, OF c g]
  note t = summarize_request_is_pre_marker_history [where convert = scenario_convert
      and remote = scenario_summarizer and remote' = exact_summarizer
      and H = scenario_history and setMessages = chat_setMessages and append_cb = chat_append
      and isManual = True and w = scenario_world and cw = scenario_world]
  from t h have eq: "performCompaction scenario_convert exact_summarizer scenario_history
        chat_setMessages chat_append True scenario_world
     = performCompaction scenario_convert scenario_summarizer scenario_history chat_setMessages
        chat_append True scenario_world"
    by blast
  from t have run: "performCompaction scenario_convert scenario_summarizer scenario_history
        chat_setMessages chat_append True scenario_world
     = performCompaction_settle scenario_convert
         (fst (performCompaction_start scenario_history chat_setMessages chat_append True
            scenario_world))
         (scenario_summarizer \<lparr>req_messages = scenario_history, manageAction = ''summarize''\<rparr>)
         (snd (performCompaction_start scenario_history chat_setMessages chat_append True
            scenario_world))"
    by blast
  have err: "compactionError (snd (performCompaction scenario_convert exact_summarizer
        scenario_history chat_setMessages chat_append True scenario_world)) = None"
    unfolding eq run
    by (simp add: scenario_summarizer_def s start_snd)
  have hist: "history (caller (snd (performCompaction scenario_convert exact_summarizer
        scenario_history chat_setMessages chat_append True scenario_world)))
     = [\<lparr>id_msg = ''compaction-marker-1000'', role = Assistant, created = 1,
         content = [CompactionMarkerContent
           ''Conversation compacted. Summary prepared to continue.''],
         display = True, sendToLLM = False\<rparr>,
        scenario_summary]"
    unfolding eq run
    by (simp add: scenario_summarizer_def s start_fst start_snd scenario_world_simps
        chat_setMessages_def compactionMarker_def completedMarker_def string_of_nat_1000)
  from h other eq err hist show ?thesis by blast
qed

section \<open>The markers the coordinator builds\<close>

text \<open>
  C7, as the specification has it: every marker has a fresh unique identifier. The
  identifier is the clock reading behind a fixed prefix. In the scenario the clock stands
  still; an automatic trigger followed by a manual trigger on the resulting history
  leaves two messages with the same identifier in the history.
\<close>

theorem marker_id_not_fresh_counterexample:
  "\<not> distinct (map id_msg (history (caller (snd (performCompaction_start
       (history (caller (snd (performCompaction_start scenario_history chat_setMessages
          chat_append False scenario_world))))
       chat_setMessages chat_append True
       (snd (performCompaction_start scenario_history chat_setMessages chat_append False
          scenario_world)))))))"
  by (simp add: start_snd scenario_world_simps chat_setMessages_def compactionMarker_def
      scenario_history_def)

text \<open>
  C7, amended. The in-flight marker appended by the first half and the error marker
  appended by the catch block have role assistant, creation time the current clock
  reading in seconds, \<open>display\<close> true, \<open>sendToLLM\<close> false (as has the completed marker)
  and exactly one content block, of type \<^verbatim>\<open>compactionMarker\<close>. The status text of the
  in-flight marker differs between manual and automatic triggers. The identifier is
  \<^verbatim>\<open>compaction-marker-\<close> or \<^verbatim>\<open>compaction-error-\<close> followed by the clock reading in
  milliseconds, in decimal: markers built at different clock readings have different
  identifiers, and an in-flight marker never shares its identifier with an error marker.
\<close>

theorem marker_shape:
  "k_marker (fst (performCompaction_start H setMessages append_cb isManual w))
     = \<lparr>id_msg = ''compaction-marker-'' @ string_of_nat (clock w (ticks w)),
        role = Assistant,
        created = clock w (ticks w + 1) div 1000,
        content = [CompactionMarkerContent
          (if isManual then ''Compacting conversation as requested...''
           else ''Context limit reached. Compacting conversation...'')],
        display = True, sendToLLM = False\<rparr>
   \<and> caller (snd (performCompaction_start H setMessages append_cb isManual w))
     = setMessages (H @ [k_marker (fst (performCompaction_start H setMessages append_cb isManual w))])
         (caller w)
   \<and> caller (snd (performCompaction_settle convert k (Rejected e) w))
     = k_setMessages k (k_messages k @
         [\<lparr>id_msg = ''compaction-error-'' @ string_of_nat (clock w (ticks w)),
           role = Assistant,
           created = clock w (ticks w + 1) div 1000,
           content = [CompactionMarkerContent
             ''Compaction failed. Please try again or start a new session.''],
           display = True, sendToLLM = False\<rparr>]) (caller w)
   \<and> \<not> sendToLLM (completedMarker (compactionMarker isManual t c))
   \<and> content (compactionMarker True t c) \<noteq> content (compactionMarker False t c)
   \<and> (t \<noteq> t' \<longrightarrow>
        id_msg (compactionMarker isManual t c) \<noteq> id_msg (compactionMarker isManual' t' c')
        \<and> id_msg (errorMarker t c) \<noteq> id_msg (errorMarker t' c'))
   \<and> id_msg (compactionMarker isManual t c) \<noteq> id_msg (errorMarker t' c')"
  by (simp add: start_fst start_snd settle_rejected compactionMarker_def errorMarker_def
      completedMarker_def string_of_nat_eq_iff)

theorem marker_shape_witness:
  "(1000::nat) \<noteq> 1001
   \<and> id_msg (compactionMarker True 1000 1000) \<noteq> id_msg (compactionMarker False 1001 1001)
   \<and> id_msg (errorMarker 1000 1000) \<noteq> id_msg (errorMarker 1001 1001)
   \<and> k_marker (fst (performCompaction_start scenario_history chat_setMessages chat_append True
        scenario_world))
     = \<lparr>id_msg = ''compaction-marker-1000'', role = Assistant, created = 1,
        content = [CompactionMarkerContent ''Compacting conversation as requested...''],
        display = True, sendToLLM = False\<rparr>"
proof -
  have h: "(1000::nat) \<noteq> 1001" by simp
  from marker_shape [where t = 1000 and t' = 1001 and c = 1000 and c' = 1001
      and isManual = True and isManual' = False and H = scenario_history
      and setMessages = chat_setMessages and append_cb = chat_append and w = scenario_world
      and k = "fst (performCompaction_start scenario_history chat_setMessages chat_append True
        scenario_world)"
      and convert = scenario_convert and e = OtherValue]
  show ?thesis
    using h by (simp add: scenario_world_simps string_of_nat_1000)
qed

section \<open>The triggers never reject\<close>



section \<open>Rendering a marker\<close>

text \<open>
  C9, as the specification has it: a message that contains a \<^verbatim>\<open>compactionMarker\<close>
  block with an empty \<^verbatim>\<open>msg\<close> renders as the default text. \<^verbatim>\<open>find\<close> returns the
  first block of that type: a message whose first marker block says \<^verbatim>\<open>x\<close> and whose
  second marker block is empty contains an empty marker block and renders as \<^verbatim>\<open>x\<close>.
\<close>

theorem later_empty_marker_counterexample:
  "CompactionMarkerContent [] \<in> set (content
      \<lparr>id_msg = ''m'', role = Assistant, created = 0,
       content = [CompactionMarkerContent ''x'', CompactionMarkerContent []],
       display = True, sendToLLM = False\<rparr>)
   \<and> text_of (CompactionMarker
      \<lparr>id_msg = ''m'', role = Assistant, created = 0,
       content = [CompactionMarkerContent ''x'', CompactionMarkerContent []],
       display = True, sendToLLM = False\<rparr>) \<noteq> ''Conversation compacted''"
  by (simp add: CompactionMarker_def markerText_def)

text \<open>
  C9, amended. For every message whose first \<^verbatim>\<open>compactionMarker\<close> block has the empty
  string as its \<^verbatim>\<open>msg\<close>, the renderer shows the default text
  \<^verbatim>\<open>Conversation compacted\<close>. The renderer is a function of the message alone, so
  rendering the same message again gives the same tree.
\<close>

theorem first_marker_empty_renders_default:
  assumes "find is_compactionMarker (content m) = Some (CompactionMarkerContent [])"
  shows "markerText m = ''Conversation compacted''
       \<and> text_of (CompactionMarker m) = ''Conversation compacted''
       \<and> CompactionMarker m =
           Elem ''div'' ''flex items-center text-xs text-gray-400 py-2''
             [Elem ''div'' ''flex-grow border-t border-gray-300'' [],
              Elem ''span'' ''px-3'' [TextNode ''Conversation compacted''],
              Elem ''div'' ''flex-grow border-t border-gray-300'' []]"
  using assms by (simp add: CompactionMarker_def markerText_def)

theorem first_marker_empty_renders_default_witness:
  "find is_compactionMarker (content
      \<lparr>id_msg = ''m'', role = Assistant, created = 0,
       content = [TextContent ''t'', CompactionMarkerContent []],
       display = True, sendToLLM = False\<rparr>) = Some (CompactionMarkerContent [])
   \<and> text_of (CompactionMarker
      \<lparr>id_msg = ''m'', role = Assistant, created = 0,
       content = [TextContent ''t'', CompactionMarkerContent []],
       display = True, sendToLLM = False\<rparr>) = ''Conversation compacted''"
proof -
  have h: "find is_compactionMarker (content
      \<lparr>id_msg = ''m'', role = Assistant, created = 0,
       content = [TextContent ''t'', CompactionMarkerContent []],
       display = True, sendToLLM = False\<rparr>) = Some (CompactionMarkerContent [])"
    by simp
  from first_marker_empty_renders_default [OF h] show ?thesis
    using h by simp
qed

text \<open>
  C10. For every message with no \<^verbatim>\<open>compactionMarker\<close> block, \<^verbatim>\<open>find\<close> gives
  undefined, the optional chaining gives undefined, and the renderer returns its tree
  with the default text \<^verbatim>\<open>Conversation compacted\<close>: no branch of it fails.
\<close>

theorem no_marker_renders_default:
  assumes "\<not> hasCompactionMarker m"
  shows "markerText m = ''Conversation compacted''
       \<and> text_of (CompactionMarker m) = ''Conversation compacted''"
proof -
  from assms have "find is_compactionMarker (content m) = None"
    by (simp add: hasCompactionMarker_def find_None_iff list_ex_iff)
  then show ?thesis by (simp add: CompactionMarker_def markerText_def)
qed

theorem no_marker_renders_default_witness:
  "\<not> hasCompactionMarker scenario_summary
   \<and> text_of (CompactionMarker scenario_summary) = ''Conversation compacted''"
proof -
  have h: "\<not> hasCompactionMarker scenario_summary"
    by (simp add: hasCompactionMarker_def scenario_summary_def)
  from no_marker_renders_default [OF h] show ?thesis
    using h by simp
qed

end
